theory Spec2Isabelle
  imports Main "HOL-Library.Word"
begin

section \<open>The Header component of src/Header.js\<close>

text \<open>
  The module declares two styled components with tagged template literals and exports one
  function component:
  \<^verbatim>\<open>
  const StyledHeader = styled.header`
    width: 100%;
    min-height: 100vh;
    align-items: center;
    display: flex;
    justify-content: center;
  `;
  const StyledH1 = styled.h1`
    font-size: 2re;
  `;
  const Header = (props) => (
    <StyledHeader>
      <StyledH1>{props.children}</StyledH1>
    </StyledHeader>
  );
  \<close>
\<close>

subsection \<open>Values\<close>

text \<open>
  A styled component, as \<open>styled.tag\<close> applied to a template literal makes it: the host tag
  it renders and the style text of the literal, character for character.
\<close>

record styled_component =
  base :: string
  styles :: string

text \<open>The type of a React element: a host tag, or a styled component.\<close>

datatype element_type = Host string | Styled styled_component

text \<open>
  The JavaScript values a props object and a child slot hold. A number is its IEEE-754
  binary64 encoding: the component never computes on one. An object is its table of own
  properties, the first binding of a name being the property. A React element is its type
  and its props table; key and ref are null for every element made here.
\<close>

datatype js_value =
    JUndefined
  | JNull
  | JBool bool
  | JNumber "64 word"
  | JString string
  | JArray "js_value list"
  | JObject "(string \<times> js_value) list"
  | JElement element_type "(string \<times> js_value) list"

datatype error = TypeError

text \<open>Reading a property of a property table: a missing name reads as undefined.\<close>

definition own_property :: "(string \<times> js_value) list \<Rightarrow> string \<Rightarrow> js_value" where
  "own_property ps k = (case map_of ps k of None \<Rightarrow> JUndefined | Some v \<Rightarrow> v)"

text \<open>
  The expression \<open>props.children\<close>. On undefined and null the property read throws a
  TypeError; on an object it reads the property; a primitive, an array and a React element
  have no property of that name, so the read gives undefined.
\<close>

fun get_children :: "js_value \<Rightarrow> error + js_value" where
  "get_children JUndefined = Inl TypeError"
| "get_children JNull = Inl TypeError"
| "get_children (JObject ps) = Inr (own_property ps ''children'')"
| "get_children v = Inr JUndefined"

text \<open>
  A JSX element without attributes, \<open>React.createElement(type, null, ...children)\<close>:
  no child argument leaves the props empty, one child argument is stored as it is under
  \<open>children\<close> (also when it is undefined), several are stored as an array.
\<close>

fun createElement :: "element_type \<Rightarrow> js_value list \<Rightarrow> js_value" where
  "createElement ty [] = JElement ty []"
| "createElement ty [c] = JElement ty [(''children'', c)]"
| "createElement ty cs = JElement ty [(''children'', JArray cs)]"

subsection \<open>The module\<close>

text \<open>The bindings of the module scope that the component reads.\<close>

record module =
  StyledHeader :: styled_component
  StyledH1 :: styled_component

text \<open>The two \<open>const\<close> declarations, evaluated when the module is loaded.\<close>

definition module_init :: module where
  "module_init =
     \<lparr> StyledHeader =
         \<lparr> base = ''header'',
           styles = ''\<newline>  width: 100%;\<newline>  min-height: 100vh;\<newline>  align-items: center;\<newline>  display: flex;\<newline>  justify-content: center;\<newline>'' \<rparr>,
       StyledH1 =
         \<lparr> base = ''h1'',
           styles = ''\<newline>  font-size: 2re;\<newline>'' \<rparr> \<rparr>"

text \<open>
  The component. A call takes the props and the module scope and returns the value of the
  body, or the error it throws, with the module scope after the call. The body is one
  expression: it reads \<open>props.children\<close> and the two bindings, and assigns nothing.
  The white space between the JSX tags holds line breaks, so it makes no child: the outer
  element has one child, the inner element, and the inner element has one child, the
  value read.
\<close>

definition Header :: "js_value \<Rightarrow> module \<Rightarrow> (error + js_value) \<times> module" where
  "Header props m =
     (case get_children props of
        Inl e \<Rightarrow> (Inl e, m)
      | Inr c \<Rightarrow>
          (Inr (createElement (Styled (StyledHeader m))
                  [createElement (Styled (StyledH1 m)) [c]]), m))"

text \<open>The host calling the component once for each props value of a list, in order.\<close>

fun render_all :: "js_value list \<Rightarrow> module \<Rightarrow> (error + js_value) list \<times> module" where
  "render_all [] m = ([], m)"
| "render_all (p # ps) m =
     (case Header p m of (r, m') \<Rightarrow>
        (case render_all ps m' of (rs, m'') \<Rightarrow> (r # rs, m'')))"

subsection \<open>Reading the result\<close>

text \<open>The type and the child slot of a React element; nothing else has them.\<close>

fun element_type_of :: "js_value \<Rightarrow> element_type option" where
  "element_type_of (JElement ty ps) = Some ty"
| "element_type_of v = None"

fun element_children :: "js_value \<Rightarrow> js_value option" where
  "element_children (JElement ty ps) = Some (own_property ps ''children'')"
| "element_children v = None"

text \<open>The names of the props of a React element.\<close>

fun prop_names :: "js_value \<Rightarrow> string list" where
  "prop_names (JElement ty ps) = map fst ps"
| "prop_names v = []"

text \<open>The slot two levels down: \<open>out.props.children.props.children\<close>.\<close>

definition innermost_slot :: "js_value \<Rightarrow> js_value option" where
  "innermost_slot out =
     (case element_children out of None \<Rightarrow> None | Some inner \<Rightarrow> element_children inner)"

text \<open>
  The number of elements stacked above a value: an element counts one more than what its
  \<open>children\<close> slot holds, and a value that is not an element counts none.
\<close>

function nesting :: "js_value \<Rightarrow> nat" where
  "nesting (JElement ty ps) = Suc (nesting (own_property ps ''children''))"
| "nesting JUndefined = 0"
| "nesting JNull = 0"
| "nesting (JBool b) = 0"
| "nesting (JNumber n) = 0"
| "nesting (JString s) = 0"
| "nesting (JArray xs) = 0"
| "nesting (JObject ps) = 0"
  by pat_completeness auto
termination
proof (relation "measure size")
  show "wf (measure size)" by simp
next
  fix ty :: element_type and ps :: "(string \<times> js_value) list"
  have bound:
    "size (own_property qs ''children'') \<le> size_list (size_prod (\<lambda>_. 0) size) qs" for qs
  proof (induction qs)
    case Nil
    show ?case by (simp add: own_property_def)
  next
    case (Cons q qs)
    then show ?case by (cases q) (auto simp: own_property_def split: option.splits)
  qed
  from bound [of ps] show "(own_property ps ''children'', JElement ty ps) \<in> measure size"
    by simp
qed

text \<open>Applying a function to what the \<open>children\<close> slot of an element holds.\<close>

fun map_children :: "(js_value \<Rightarrow> js_value) \<Rightarrow> js_value \<Rightarrow> js_value" where
  "map_children f (JElement ty ps) =
     JElement ty (map (\<lambda>(k, v). if k = ''children'' then (k, f v) else (k, v)) ps)"
| "map_children f v = v"

subsection \<open>Style text\<close>

text \<open>
  The style text of a template literal read as a list of CSS declarations: declarations
  end at a semicolon, the name of one ends at its first colon, and the white space around
  a name and around a value is dropped.
\<close>

definition is_space :: "char \<Rightarrow> bool" where
  "is_space c = (c = CHR '' '' \<or> c = CHR ''\<newline>'' \<or> c = CHR 0x09 \<or> c = CHR 0x0D)"

definition trim :: "string \<Rightarrow> string" where
  "trim s = rev (dropWhile is_space (rev (dropWhile is_space s)))"

fun split_on :: "char \<Rightarrow> string \<Rightarrow> string list" where
  "split_on d [] = [[]]"
| "split_on d (c # cs) =
     (if c = d then [] # split_on d cs
      else (case split_on d cs of [] \<Rightarrow> [[c]] | w # ws \<Rightarrow> (c # w) # ws))"

definition read_declaration :: "string \<Rightarrow> (string \<times> string) option" where
  "read_declaration s =
     (if trim s = [] then None
      else Some (trim (takeWhile (\<lambda>c. c \<noteq> CHR '':'') s),
                 trim (drop 1 (dropWhile (\<lambda>c. c \<noteq> CHR '':'') s))))"

definition declarations :: "string \<Rightarrow> (string \<times> string) list" where
  "declarations css = List.map_filter read_declaration (split_on (CHR '';'') css)"

text \<open>
  The unit of a value: what follows its leading number, when it has a leading number and
  something follows it.
\<close>

definition is_numeric :: "char \<Rightarrow> bool" where
  "is_numeric c = (c \<in> set ''0123456789.+-'')"

definition unit_of :: "string \<Rightarrow> string option" where
  "unit_of v =
     (if takeWhile is_numeric v = [] \<or> dropWhile is_numeric v = [] then None
      else Some (dropWhile is_numeric v))"

text \<open>
  The units of CSS Values and Units: font-relative and viewport-relative lengths, absolute
  lengths, angles, times, frequencies, resolutions, and the percentage sign.
\<close>

definition css_units :: "string list" where
  "css_units =
     [''em'', ''ex'', ''ch'', ''rem'', ''vw'', ''vh'', ''vmin'', ''vmax'',
      ''cm'', ''mm'', ''Q'', ''in'', ''pt'', ''pc'', ''px'',
      ''deg'', ''grad'', ''rad'', ''turn'', ''s'', ''ms'', ''Hz'', ''kHz'',
      ''dpi'', ''dpcm'', ''dppx'', ''%'']"

subsection \<open>Calls in a heap\<close>

text \<open>
  The same body with the objects where JavaScript has them, in a heap. A value is a
  primitive or a reference to a heap object; the props arrive as a reference; every
  \<open>createElement\<close> makes a new object, so two calls never return the same object. A world
  is what a call can read and write: the module scope, the heap, and everything else of
  the program (other variables, caches, the document), of any type.
\<close>

type_synonym addr = nat

datatype ref_value =
    RUndefined
  | RNull
  | RBool bool
  | RNumber "64 word"
  | RString string
  | RRef addr

datatype heap_object =
    HObject "(string \<times> ref_value) list"
  | HArray "ref_value list"
  | HElement element_type "(string \<times> ref_value) list"

record 'g world =
  scope :: module
  heap :: "heap_object list"
  globals :: 'g

text \<open>
  A throw of the program, or a reference to no object of the heap, which no JavaScript
  state holds.
\<close>

datatype fault = Throws error | Dangling

definition cell :: "heap_object list \<Rightarrow> addr \<Rightarrow> heap_object option" where
  "cell h a = (if a < length h then Some (h ! a) else None)"

definition table_get :: "(string \<times> ref_value) list \<Rightarrow> string \<Rightarrow> ref_value" where
  "table_get ps k = (case map_of ps k of None \<Rightarrow> RUndefined | Some v \<Rightarrow> v)"

text \<open>A new object goes to the first free address; no object that exists is touched.\<close>

definition allocate :: "heap_object \<Rightarrow> 'g world \<Rightarrow> ref_value \<times> 'g world" where
  "allocate obj w = (RRef (length (heap w)), w\<lparr>heap := heap w @ [obj]\<rparr>)"

text \<open>The expression \<open>props.children\<close>, as \<open>get_children\<close> above.\<close>

fun read_children :: "ref_value \<Rightarrow> 'g world \<Rightarrow> fault + ref_value" where
  "read_children RUndefined w = Inl (Throws TypeError)"
| "read_children RNull w = Inl (Throws TypeError)"
| "read_children (RRef a) w =
     (case cell (heap w) a of
        None \<Rightarrow> Inl Dangling
      | Some (HObject ps) \<Rightarrow> Inr (table_get ps ''children'')
      | Some obj \<Rightarrow> Inr RUndefined)"
| "read_children v w = Inr RUndefined"

text \<open>
  \<open>React.createElement(type, null, ...children)\<close>, as \<open>createElement\<close> above; several
  children are stored in a new array.
\<close>

fun create_element ::
  "element_type \<Rightarrow> ref_value list \<Rightarrow> 'g world \<Rightarrow> ref_value \<times> 'g world" where
  "create_element ty [] w = allocate (HElement ty []) w"
| "create_element ty [c] w = allocate (HElement ty [(''children'', c)]) w"
| "create_element ty cs w =
     (case allocate (HArray cs) w of (arr, w') \<Rightarrow>
        allocate (HElement ty [(''children'', arr)]) w')"

text \<open>
  The call. The arguments are evaluated from left to right: the two bindings are read,
  then \<open>props.children\<close>, then the inner element is made, then the outer one.
\<close>

definition Header_call :: "ref_value \<Rightarrow> 'g world \<Rightarrow> (fault + ref_value) \<times> 'g world" where
  "Header_call props w =
     (let outer_type = Styled (StyledHeader (scope w));
          inner_type = Styled (StyledH1 (scope w))
      in case read_children props w of
           Inl e \<Rightarrow> (Inl e, w)
         | Inr c \<Rightarrow>
             (case create_element inner_type [c] w of (inner, w') \<Rightarrow>
                (case create_element outer_type [inner] w' of (outer, w'') \<Rightarrow>
                   (Inr outer, w''))))"

text \<open>
  The structure a value has in a heap, read down to a depth: the tree of type
  \<open>js_value\<close> that the reference stands for. A reference deeper than the depth, or to no
  object, gives none.
\<close>

definition reify_table ::
  "(ref_value \<Rightarrow> js_value option) \<Rightarrow> (string \<times> ref_value) list
     \<Rightarrow> (string \<times> js_value) list option" where
  "reify_table f ps = those (map (\<lambda>p. map_option (Pair (fst p)) (f (snd p))) ps)"

primrec reify :: "nat \<Rightarrow> heap_object list \<Rightarrow> ref_value \<Rightarrow> js_value option" where
  "reify 0 h r =
     (case r of
        RUndefined \<Rightarrow> Some JUndefined
      | RNull \<Rightarrow> Some JNull
      | RBool b \<Rightarrow> Some (JBool b)
      | RNumber x \<Rightarrow> Some (JNumber x)
      | RString s \<Rightarrow> Some (JString s)
      | RRef a \<Rightarrow> None)"
| "reify (Suc n) h r =
     (case r of
        RUndefined \<Rightarrow> Some JUndefined
      | RNull \<Rightarrow> Some JNull
      | RBool b \<Rightarrow> Some (JBool b)
      | RNumber x \<Rightarrow> Some (JNumber x)
      | RString s \<Rightarrow> Some (JString s)
      | RRef a \<Rightarrow>
          (case cell h a of
             None \<Rightarrow> None
           | Some (HObject ps) \<Rightarrow> map_option JObject (reify_table (reify n h) ps)
           | Some (HArray xs) \<Rightarrow> map_option JArray (those (map (reify n h) xs))
           | Some (HElement ty ps) \<Rightarrow>
               map_option (JElement ty) (reify_table (reify n h) ps)))"

section \<open>Properties\<close>

subsection \<open>Shared facts\<close>

lemma Header_object:
  "Header (JObject ps) m =
     (Inr (JElement (Styled (StyledHeader m))
             [(''children'',
               JElement (Styled (StyledH1 m)) [(''children'', own_property ps ''children'')])]),
      m)"
  by (simp add: Header_def)

lemma Header_scope: "snd (Header props m) = m"
  by (simp add: Header_def split: sum.splits)

lemma render_all_calls: "render_all ps m = (map (\<lambda>p. fst (Header p m)) ps, m)"
proof (induction ps)
  case Nil
  show ?case by simp
next
  case (Cons p ps)
  obtain r where call: "Header p m = (r, m)"
    using Header_scope [of p m] by (cases "Header p m") simp
  with Cons show ?case by simp
qed

lemma outer_declarations:
  "declarations (styles (StyledHeader module_init)) =
     [(''width'', ''100%''), (''min-height'', ''100vh''), (''align-items'', ''center''),
      (''display'', ''flex''), (''justify-content'', ''center'')]"
  by code_simp

lemma styled_bases:
  "base (StyledHeader module_init) = ''header''" "base (StyledH1 module_init) = ''h1''"
  by (simp_all add: module_init_def)

lemma inner_declarations:
  "declarations (styles (StyledH1 module_init)) = [(''font-size'', ''2re'')]"
  by code_simp

text \<open>
  Outside the props objects: a call with undefined or null in place of the props throws
  at the property read.
\<close>

lemma Header_without_props:
  "Header JUndefined m = (Inl TypeError, m)" "Header JNull m = (Inl TypeError, m)"
  by (simp_all add: Header_def)

subsection \<open>The content slot\<close>

text \<open>
  C1. For every content value \<open>c\<close>, a call of Header with a props object whose
  \<open>children\<close> is \<open>c\<close> returns a structure whose innermost slot holds exactly \<open>c\<close>,
  whatever else the props object holds; for every props object the innermost slot holds
  the value of \<open>props.children\<close>, which is undefined when the content is absent. The call
  leaves the module scope as it was. The component does not look at the content: changing
  the content by any function before the call gives what changing the innermost slot by
  that function after the call gives.
\<close>

theorem Header_passes_content:
  "(\<exists>out. Header (JObject ((''children'', c) # rest)) m = (Inr out, m)
          \<and> innermost_slot out = Some c)
   \<and> (\<exists>out. Header (JObject ps) m = (Inr out, m)
          \<and> innermost_slot out = Some (own_property ps ''children''))
   \<and> (\<exists>out. Header (JObject []) m = (Inr out, m) \<and> innermost_slot out = Some JUndefined)
   \<and> map_sum id (map_children (map_children f))
         (fst (Header (JObject ((''children'', c) # rest)) m))
       = fst (Header (JObject ((''children'', f c) # rest)) m)"
  by (simp add: Header_object innermost_slot_def own_property_def)

text \<open>
  C2. For every props object the result is an element of the styled \<open>header\<close> whose only
  prop is \<open>children\<close>, holding one element (not an array) of the styled \<open>h1\<close>, whose only
  prop is \<open>children\<close>, holding the content: exactly two elements are stacked above the
  content, whatever it is.
\<close>

theorem Header_two_levels:
  "\<exists>outer inner.
     fst (Header (JObject ps) module_init) = Inr outer
     \<and> element_type_of outer = Some (Styled (StyledHeader module_init))
     \<and> base (StyledHeader module_init) = ''header''
     \<and> prop_names outer = [''children'']
     \<and> element_children outer = Some inner
     \<and> element_type_of inner = Some (Styled (StyledH1 module_init))
     \<and> base (StyledH1 module_init) = ''h1''
     \<and> prop_names inner = [''children'']
     \<and> element_children inner = Some (own_property ps ''children'')
     \<and> nesting outer = 2 + nesting (own_property ps ''children'')"
  by (simp add: Header_object own_property_def styled_bases)

subsection \<open>The style rules\<close>

text \<open>
  C3. For every props object the outer element is of a styled component whose style text
  declares \<open>width: 100%\<close> (full width), \<open>min-height: 100vh\<close> (the height of the viewport, as a
  minimum), \<open>display: flex\<close>, \<open>justify-content: center\<close> (centred along the row) and
  \<open>align-items: center\<close> (centred across it); the inner element is of a styled component
  whose style text declares \<open>font-size\<close>; and the content sits inside them as it was
  passed.
\<close>

theorem Header_style_rules:
  "\<exists>outer_style inner_style.
     fst (Header (JObject ps) module_init) =
       Inr (JElement (Styled outer_style)
              [(''children'',
                JElement (Styled inner_style)
                  [(''children'', own_property ps ''children'')])])
     \<and> declarations (styles outer_style) =
         [(''width'', ''100%''), (''min-height'', ''100vh''), (''align-items'', ''center''),
          (''display'', ''flex''), (''justify-content'', ''center'')]
     \<and> declarations (styles inner_style) = [(''font-size'', ''2re'')]"
  by (simp add: Header_object outer_declarations inner_declarations)

subsection \<open>Determinism and state\<close>

text \<open>Objects that exist stay where they are when the heap grows, and so do structures.\<close>

lemma cell_append: "cell h a = Some obj \<Longrightarrow> cell (h @ ext) a = Some obj"
  by (auto simp: cell_def nth_append split: if_splits)

lemma those_map_mono:
  "those (map f xs) = Some ys
   \<Longrightarrow> (\<And>x y. x \<in> set xs \<Longrightarrow> f x = Some y \<Longrightarrow> g x = Some y)
   \<Longrightarrow> those (map g xs) = Some ys"
proof (induction xs arbitrary: ys)
  case Nil
  then show ?case by simp
next
  case (Cons x xs)
  then show ?case by (auto split: option.splits)
qed

lemma reify_table_mono:
  "reify_table f ps = Some qs \<Longrightarrow> (\<And>x y. f x = Some y \<Longrightarrow> g x = Some y)
   \<Longrightarrow> reify_table g ps = Some qs"
  unfolding reify_table_def
  by (erule those_map_mono) auto

lemma reify_append: "reify n h r = Some t \<Longrightarrow> reify n (h @ ext) r = Some t"
proof (induction n arbitrary: r t)
  case 0
  then show ?case by (cases r) auto
next
  case (Suc n)
  show ?case
  proof (cases r)
    case (RRef a)
    with Suc.prems obtain obj where obj: "cell h a = Some obj"
      by (auto split: option.splits)
    then have obj': "cell (h @ ext) a = Some obj" by (rule cell_append)
    show ?thesis
    proof (cases obj)
      case (HObject ps)
      with Suc.prems RRef obj obtain qs
        where "reify_table (reify n h) ps = Some qs" "t = JObject qs"
        by auto
      moreover from this(1) have "reify_table (reify n (h @ ext)) ps = Some qs"
        by (rule reify_table_mono) (rule Suc.IH)
      ultimately show ?thesis using RRef obj' HObject by simp
    next
      case (HArray xs)
      with Suc.prems RRef obj obtain ys
        where "those (map (reify n h) xs) = Some ys" "t = JArray ys"
        by auto
      moreover from this(1) have "those (map (reify n (h @ ext)) xs) = Some ys"
        by (rule those_map_mono) (rule Suc.IH)
      ultimately show ?thesis using RRef obj' HArray by simp
    next
      case (HElement ty ps)
      with Suc.prems RRef obj obtain qs
        where "reify_table (reify n h) ps = Some qs" "t = JElement ty qs"
        by auto
      moreover from this(1) have "reify_table (reify n (h @ ext)) ps = Some qs"
        by (rule reify_table_mono) (rule Suc.IH)
      ultimately show ?thesis using RRef obj' HElement by simp
    qed
  qed (use Suc.prems in auto)
qed

text \<open>What a call with a props object does to the world: it adds two objects.\<close>

lemma Header_call_object:
  assumes "cell (heap w) a = Some (HObject ps)"
  shows "Header_call (RRef a) w =
     (Inr (RRef (Suc (length (heap w)))),
      w\<lparr>heap := heap w @
           [HElement (Styled (StyledH1 (scope w))) [(''children'', table_get ps ''children'')],
            HElement (Styled (StyledHeader (scope w)))
              [(''children'', RRef (length (heap w)))]]\<rparr>)"
  using assms by (simp add: Header_call_def allocate_def)

lemma Header_call_reify:
  assumes props: "cell (heap w) a = Some (HObject ps)"
    and content: "reify n (heap w) (table_get ps ''children'') = Some c"
  shows "\<exists>r w'. Header_call (RRef a) w = (Inr r, w')
     \<and> r = RRef (Suc (length (heap w)))
     \<and> reify (Suc (Suc n)) (heap w') r =
         Some (JElement (Styled (StyledHeader (scope w)))
                [(''children'', JElement (Styled (StyledH1 (scope w))) [(''children'', c)])])
     \<and> scope w' = scope w \<and> globals w' = globals w
     \<and> take (length (heap w)) (heap w') = heap w
     \<and> length (heap w') = length (heap w) + 2
     \<and> cell (heap w') a = Some (HObject ps)
     \<and> reify n (heap w') (table_get ps ''children'') = Some c"
proof -
  let ?ext =
    "[HElement (Styled (StyledH1 (scope w))) [(''children'', table_get ps ''children'')],
      HElement (Styled (StyledHeader (scope w))) [(''children'', RRef (length (heap w)))]]"
  have kept: "reify n (heap w @ ?ext) (table_get ps ''children'') = Some c"
    using content by (rule reify_append)
  have props': "cell (heap w @ ?ext) a = Some (HObject ps)"
    using props by (rule cell_append)
  have inner: "reify (Suc n) (heap w @ ?ext) (RRef (length (heap w))) =
      Some (JElement (Styled (StyledH1 (scope w))) [(''children'', c)])"
    using kept by (simp add: cell_def reify_table_def nth_append)
  have outer: "reify (Suc (Suc n)) (heap w @ ?ext) (RRef (Suc (length (heap w)))) =
      Some (JElement (Styled (StyledHeader (scope w)))
             [(''children'', JElement (Styled (StyledH1 (scope w))) [(''children'', c)])])"
    by (subst reify.simps(2))
      (simp add: inner cell_def reify_table_def nth_append del: reify.simps)
  show ?thesis
    using outer kept props' by (simp add: Header_call_object [OF props] del: reify.simps)
qed

text \<open>
  C4. Take two calls of Header, in any two worlds with the same module scope, whatever
  their heaps and whatever else they hold, each with a props object whose \<open>children\<close> has
  the structure \<open>c\<close> in its heap. Both calls return, and the two results have the same
  structure, the two elements around \<open>c\<close>. Each call leaves the module scope, the rest of
  the world and every object of the heap as they were: it only adds the new objects. A
  second call in the world the first one left, with the same props object, returns a
  new object, other than the first result, with the same structure, and the first result
  still has it.
\<close>

theorem Header_repeatable:
  assumes props_w: "cell (heap w) a = Some (HObject ps)"
    and props_v: "cell (heap v) b = Some (HObject qs)"
    and content_w: "reify n (heap w) (table_get ps ''children'') = Some c"
    and content_v: "reify n (heap v) (table_get qs ''children'') = Some c"
    and scopes: "scope w = scope v"
  shows "\<exists>r w' s v' r2 w2 out.
     Header_call (RRef a) w = (Inr r, w') \<and> Header_call (RRef b) v = (Inr s, v')
     \<and> fst (Header (JObject [(''children'', c)]) (scope w)) = Inr out
     \<and> reify (n + 2) (heap w') r = Some out
     \<and> reify (n + 2) (heap v') s = Some out
     \<and> scope w' = scope w \<and> globals w' = globals w
     \<and> take (length (heap w)) (heap w') = heap w
     \<and> scope v' = scope v \<and> globals v' = globals v
     \<and> take (length (heap v)) (heap v') = heap v
     \<and> Header_call (RRef a) w' = (Inr r2, w2)
     \<and> r2 \<noteq> r
     \<and> reify (n + 2) (heap w2) r2 = Some out
     \<and> reify (n + 2) (heap w2) r = Some out
     \<and> globals w2 = globals w"
proof -
  let ?out = "JElement (Styled (StyledHeader (scope w)))
     [(''children'', JElement (Styled (StyledH1 (scope w))) [(''children'', c)])]"
  from Header_call_reify [OF props_w content_w] obtain r w'
    where first: "Header_call (RRef a) w = (Inr r, w')"
      and r: "r = RRef (Suc (length (heap w)))"
      and out_r: "reify (Suc (Suc n)) (heap w') r = Some ?out"
      and frame_w: "scope w' = scope w" "globals w' = globals w"
        "take (length (heap w)) (heap w') = heap w"
      and longer: "length (heap w') = length (heap w) + 2"
      and props_w': "cell (heap w') a = Some (HObject ps)"
      and content_w': "reify n (heap w') (table_get ps ''children'') = Some c"
    by blast
  from Header_call_reify [OF props_v content_v] scopes obtain s v'
    where other: "Header_call (RRef b) v = (Inr s, v')"
      and out_s: "reify (Suc (Suc n)) (heap v') s = Some ?out"
      and frame_v: "scope v' = scope v" "globals v' = globals v"
        "take (length (heap v)) (heap v') = heap v"
    by auto
  from Header_call_reify [OF props_w' content_w'] frame_w obtain r2 w2
    where second: "Header_call (RRef a) w' = (Inr r2, w2)"
      and r2: "r2 = RRef (Suc (length (heap w')))"
      and out_r2: "reify (Suc (Suc n)) (heap w2) r2 = Some ?out"
      and frame_w2: "globals w2 = globals w"
      and grown: "take (length (heap w')) (heap w2) = heap w'"
    by auto
  have fresh: "r2 \<noteq> r"
    using r r2 longer by simp
  have "heap w2 = heap w' @ drop (length (heap w')) (heap w2)"
    using grown by (metis append_take_drop_id)
  then have still: "reify (Suc (Suc n)) (heap w2) r = Some ?out"
    using reify_append [OF out_r] by metis
  have tree: "fst (Header (JObject [(''children'', c)]) (scope w)) = Inr ?out"
    by (simp add: Header_object own_property_def)
  have two: "n + 2 = Suc (Suc n)" by simp
  show ?thesis
    unfolding two
    using first other tree out_r out_s frame_w frame_v second fresh out_r2 still frame_w2
    by blast
qed

theorem Header_repeatable_witness:
  "\<exists>r w' s v' r2 w2 out.
     Header_call (RRef 0)
       \<lparr>scope = module_init, heap = [HObject [(''children'', RString ''Hello'')]],
        globals = (0::nat)\<rparr> = (Inr r, w')
     \<and> Header_call (RRef 1)
       \<lparr>scope = module_init,
        heap = [HArray [RNull], HObject [(''id'', RString ''top''), (''children'', RString ''Hello'')]],
        globals = (41::nat)\<rparr> = (Inr s, v')
     \<and> fst (Header (JObject [(''children'', JString ''Hello'')]) module_init) = Inr out
     \<and> reify 2 (heap w') r = Some out
     \<and> reify 2 (heap v') s = Some out
     \<and> scope w' = module_init \<and> globals w' = 0
     \<and> take 1 (heap w') = [HObject [(''children'', RString ''Hello'')]]
     \<and> scope v' = module_init \<and> globals v' = 41
     \<and> take 2 (heap v') =
         [HArray [RNull], HObject [(''id'', RString ''top''), (''children'', RString ''Hello'')]]
     \<and> Header_call (RRef 0) w' = (Inr r2, w2)
     \<and> r2 \<noteq> r
     \<and> reify 2 (heap w2) r2 = Some out
     \<and> reify 2 (heap w2) r = Some out
     \<and> globals w2 = 0"
proof -
  let ?w = "\<lparr>scope = module_init, heap = [HObject [(''children'', RString ''Hello'')]],
        globals = (0::nat)\<rparr>"
  let ?v = "\<lparr>scope = module_init,
        heap = [HArray [RNull], HObject [(''id'', RString ''top''), (''children'', RString ''Hello'')]],
        globals = (41::nat)\<rparr>"
  have props_w: "cell (heap ?w) 0 = Some (HObject [(''children'', RString ''Hello'')])"
    by (simp add: cell_def)
  have props_v: "cell (heap ?v) 1 =
      Some (HObject [(''id'', RString ''top''), (''children'', RString ''Hello'')])"
    by (simp add: cell_def)
  have content_w: "reify 0 (heap ?w) (table_get [(''children'', RString ''Hello'')] ''children'')
      = Some (JString ''Hello'')"
    by (simp add: table_get_def)
  have content_v: "reify 0 (heap ?v)
      (table_get [(''id'', RString ''top''), (''children'', RString ''Hello'')] ''children'')
      = Some (JString ''Hello'')"
    by (simp add: table_get_def)
  have scopes: "scope ?w = scope ?v" by simp
  from Header_repeatable [OF props_w props_v content_w content_v scopes]
  show ?thesis by (simp del: reify.simps add: numeral_2_eq_2)
qed

text \<open>
  C5. A call with a props object returns a structure and throws nothing, whatever the
  object holds under \<open>children\<close> (a text, an element, an array, null, undefined) and also
  when it holds nothing under that name.
\<close>

theorem Header_total:
  "(\<exists>out. fst (Header (JObject ps) m) = Inr out)
   \<and> fst (Header (JObject ps) m) \<noteq> Inl e
   \<and> (\<exists>out. fst (Header (JObject ((''children'', c) # rest)) m) = Inr out)
   \<and> (\<exists>out. fst (Header (JObject []) m) = Inr out)"
  by (simp add: Header_object)

subsection \<open>Scenarios\<close>

text \<open>
  C6. A call with the text Hello as content returns an element of the styled \<open>header\<close>,
  which declares the full width, the viewport height as minimum height and the centring
  rules, holding an element of the styled \<open>h1\<close> whose only child is the text Hello.
\<close>

theorem Header_Hello:
  "Header (JObject [(''children'', JString ''Hello'')]) module_init =
     (Inr (JElement (Styled (StyledHeader module_init))
             [(''children'',
               JElement (Styled (StyledH1 module_init))
                 [(''children'', JString ''Hello'')])]),
      module_init)
   \<and> base (StyledHeader module_init) = ''header''
   \<and> declarations (styles (StyledHeader module_init)) =
       [(''width'', ''100%''), (''min-height'', ''100vh''), (''align-items'', ''center''),
        (''display'', ''flex''), (''justify-content'', ''center'')]
   \<and> base (StyledH1 module_init) = ''h1''
   \<and> innermost_slot
       (JElement (Styled (StyledHeader module_init))
          [(''children'',
            JElement (Styled (StyledH1 module_init))
              [(''children'', JString ''Hello'')])]) = Some (JString ''Hello'')"
  by (simp add: Header_object outer_declarations styled_bases innermost_slot_def
      own_property_def)

text \<open>
  C7. A call with a props object that has no \<open>children\<close> returns the same two elements,
  with undefined in the inner slot: the structure any other call returns, with the
  content of that call in the inner slot.
\<close>

theorem Header_no_content:
  "Header (JObject []) m =
     (Inr (JElement (Styled (StyledHeader m))
             [(''children'',
               JElement (Styled (StyledH1 m)) [(''children'', JUndefined)])]),
      m)
   \<and> Header (JObject ((''children'', c) # rest)) m =
     (Inr (JElement (Styled (StyledHeader m))
             [(''children'',
               JElement (Styled (StyledH1 m)) [(''children'', c)])]),
      m)"
  by (simp add: Header_object own_property_def)

subsection \<open>The style blocks\<close>

text \<open>
  C8. After any sequence of calls the module scope holds the two style blocks it was
  loaded with, and the result of a call is made of the content and of these two blocks
  only. The inner block declares \<open>font-size: 2re\<close>, whose unit \<open>re\<close> is not a unit of CSS;
  the units of the outer block, \<open>%\<close> and \<open>vh\<close>, are.
\<close>

theorem Header_fixed_styles:
  "snd (render_all history module_init) = module_init
   \<and> fst (Header (JObject ps) (snd (render_all history module_init))) =
       Inr (JElement (Styled (StyledHeader module_init))
              [(''children'',
                JElement (Styled (StyledH1 module_init))
                  [(''children'', own_property ps ''children'')])])
   \<and> map (\<lambda>d. unit_of (snd d)) (declarations (styles (StyledH1 module_init))) = [Some ''re'']
   \<and> ''re'' \<notin> set css_units
   \<and> map (\<lambda>d. unit_of (snd d)) (declarations (styles (StyledHeader module_init))) =
       [Some ''%'', Some ''vh'', None, None, None]
   \<and> ''%'' \<in> set css_units \<and> ''vh'' \<in> set css_units"
  by (simp add: render_all_calls Header_object outer_declarations inner_declarations
      unit_of_def is_numeric_def css_units_def)

subsection \<open>Other props\<close>

text \<open>
  C10. Two props objects with the same value under \<open>children\<close> give the same result:
  no other property of the props reaches it.
\<close>

theorem Header_ignores_other_props:
  "own_property ps ''children'' = own_property qs ''children''
   \<Longrightarrow> Header (JObject ps) m = Header (JObject qs) m"
  by (simp add: Header_object)

theorem Header_ignores_other_props_witness:
  "own_property [(''id'', JString ''top''), (''children'', JString ''Hello'')] ''children''
     = own_property [(''children'', JString ''Hello''), (''title'', JBool True)] ''children''
   \<and> Header (JObject [(''id'', JString ''top''), (''children'', JString ''Hello'')]) module_init
     = Header (JObject [(''children'', JString ''Hello''), (''title'', JBool True)]) module_init"
proof -
  have same:
    "own_property [(''id'', JString ''top''), (''children'', JString ''Hello'')] ''children''
       = own_property [(''children'', JString ''Hello''), (''title'', JBool True)] ''children''"
    by (simp add: own_property_def)
  from same Header_ignores_other_props [OF same, of module_init] show ?thesis by simp
qed

end
